theory Spec2Isabelle
  imports Main "HOL-Library.Word"
begin

section \<open>JavaScript strings\<close>

text \<open>
  A JavaScript string is a sequence of 16-bit code units. The literals of the source are
  ASCII, so each of them is written as an Isabelle string and carried over by \<open>js\<close>.
\<close>

type_synonym jschar = "16 word"
type_synonym jsstring = "jschar list"

definition js :: "string \<Rightarrow> jsstring" where
  "js s = map of_char s"

definition newline :: jschar where "newline = 0x0A"
definition dash :: jschar where "dash = 0x2D"
definition period :: jschar where "period = 0x2E"
definition colon :: jschar where "colon = 0x3A"

text \<open>
  \<open>\d\<close> of a regular expression without the unicode-sets flag: the ten ASCII digits.
\<close>

definition is_digit :: "jschar \<Rightarrow> bool" where
  "is_digit c = (0x30 \<le> c \<and> c \<le> 0x39)"

text \<open>
  \<open>\s\<close> and the characters \<open>String.prototype.trim\<close> removes are the same set:
  ECMAScript's WhiteSpace (TAB, VT, FF, SP, NBSP, ZWNBSP and the space separators) and
  LineTerminator (LF, CR, LS, PS).
\<close>

definition is_space :: "jschar \<Rightarrow> bool" where
  "is_space c =
     (c = 0x09 \<or> c = 0x0A \<or> c = 0x0B \<or> c = 0x0C \<or> c = 0x0D \<or> c = 0x20 \<or> c = 0xA0
      \<or> c = 0x1680 \<or> (0x2000 \<le> c \<and> c \<le> 0x200A) \<or> c = 0x2028 \<or> c = 0x2029
      \<or> c = 0x202F \<or> c = 0x205F \<or> c = 0x3000 \<or> c = 0xFEFF)"

text \<open>\<open>s.trim()\<close>\<close>

definition trim :: "jsstring \<Rightarrow> jsstring" where
  "trim s = rev (dropWhile is_space (rev (dropWhile is_space s)))"

text \<open>
  \<open>s.split(sep)\<close> for a separator of one code unit. The result is never empty:
  \<open>''.split(sep)\<close> is \<open>['']\<close>. So the branch for an empty list of parts in the
  second equation is never taken (lemma \<open>split_not_Nil\<close> below); it is there for the
  case distinction to be complete.
\<close>

fun split :: "jschar \<Rightarrow> jsstring \<Rightarrow> jsstring list" where
  "split sep [] = [[]]"
| "split sep (c # cs) =
     (if c = sep then [] # split sep cs
      else (case split sep cs of
              [] \<Rightarrow> [[c]]
            | p # ps \<Rightarrow> (c # p) # ps))"

text \<open>\<open>parts.join(sep)\<close>\<close>

fun join :: "jschar \<Rightarrow> jsstring list \<Rightarrow> jsstring" where
  "join sep [] = []"
| "join sep [p] = p"
| "join sep (p # q # ps) = p @ sep # join sep (q # ps)"

text \<open>\<open>s.startsWith(p)\<close>, \<open>s.includes(c)\<close> for one code unit, \<open>s.substring(1)\<close>\<close>

definition startsWith :: "jsstring \<Rightarrow> jsstring \<Rightarrow> bool" where
  "startsWith s p = (take (length p) s = p)"

definition includes_unit :: "jsstring \<Rightarrow> jschar \<Rightarrow> bool" where
  "includes_unit s c = (c \<in> set s)"

definition substring1 :: "jsstring \<Rightarrow> jsstring" where
  "substring1 s = drop 1 s"

section \<open>The result formatter\<close>

text \<open>
  \<open>formatAnalysis\<close> of \<open>Home.tsx\<close> returns one React element per kept line. An element
  is modelled by its \<open>key\<close> (the index of the line) and the display block it shows; class
  names and fixed markup (the bullet sign, the colon printed after a label) are
  presentation and are left out.
\<close>

datatype display_block =
    SectionHeader jsstring
  | LabeledItem jsstring jsstring
  | BulletItem jsstring
  | ParagraphText jsstring

datatype element = Element (key: nat) (block: display_block)

text \<open>\<open>line.replace(/[*_#`]/g, '').trim()\<close>\<close>

definition is_markup :: "jschar \<Rightarrow> bool" where
  "is_markup c = (c = 0x2A \<or> c = 0x5F \<or> c = 0x23 \<or> c = 0x60)"

definition cleanLine :: "jsstring \<Rightarrow> jsstring" where
  "cleanLine line = trim (filter (\<lambda>c. \<not> is_markup c) line)"

text \<open>
  \<open>/^\d+\./.test(s)\<close>: the greedy \<open>\d+\<close> takes every leading digit, and giving digits
  back never helps, since the code unit after a shorter run is a digit and not a period.
\<close>

definition test_header :: "jsstring \<Rightarrow> bool" where
  "test_header s =
     (takeWhile is_digit s \<noteq> [] \<and>
      (case dropWhile is_digit s of [] \<Rightarrow> False | c # _ \<Rightarrow> c = period))"

text \<open>\<open>s.replace(/^\d+\.\s*/, '')\<close>: the string itself where the pattern does not match.\<close>

definition strip_header :: "jsstring \<Rightarrow> jsstring" where
  "strip_header s =
     (if test_header s then dropWhile is_space (drop 1 (dropWhile is_digit s)) else s)"

text \<open>
  The callback of \<open>map\<close>: \<open>null\<close> is \<open>None\<close>. The pattern
  \<open>[label, ...valueParts]\<close> takes the first part and the list of the others; a split has
  at least one part, so the branch for no part at all is never taken.
\<close>

definition formatLine :: "jsstring \<Rightarrow> nat \<Rightarrow> element option" where
  "formatLine line index =
     (let cl = cleanLine line in
      if cl = [] then None
      else if test_header cl then Some (Element index (SectionHeader (strip_header cl)))
      else if startsWith cl [dash] \<and> includes_unit cl colon then
        (case split colon (substring1 cl) of
           [] \<Rightarrow> None
         | label # valueParts \<Rightarrow>
             Some (Element index (LabeledItem (trim label) (trim (join colon valueParts)))))
      else if startsWith cl [dash] then
        Some (Element index (BulletItem (trim (substring1 cl))))
      else Some (Element index (ParagraphText cl)))"

text \<open>\<open>text.split('\n').map(...).filter(Boolean)\<close>\<close>

definition formatAnalysis :: "jsstring \<Rightarrow> element list" where
  "formatAnalysis text =
     List.map_filter (\<lambda>(index, line). formatLine line index)
       (enumerate 0 (split newline text))"

text \<open>The strings a block shows: its title, its label and value, or its text.\<close>

fun block_strings :: "display_block \<Rightarrow> jsstring list" where
  "block_strings (SectionHeader title) = [title]"
| "block_strings (LabeledItem label val) = [label, val]"
| "block_strings (BulletItem t) = [t]"
| "block_strings (ParagraphText t) = [t]"

section \<open>The view controller\<close>

text \<open>
  The four \<open>useState\<close> cells of \<open>Home\<close>. \<open>null\<close> is \<open>None\<close>. The cell \<open>image\<close> of
  the source is \<open>image_data\<close> here, since \<open>image\<close> is a constant of HOL.
\<close>

record ui_state =
  image_data :: "jsstring option"
  analysis :: jsstring
  loading :: bool
  error :: "jsstring option"

definition initial_state :: ui_state where
  "initial_state = \<lparr>image_data = None, analysis = [], loading = False, error = None\<rparr>"

text \<open>The \<open>File\<close> of the change event: its declared media type and its size in bytes.\<close>

record js_file =
  file_type :: jsstring
  file_size :: nat

type_synonym blob = "8 word list"

text \<open>
  What a handler asks of the outside world, in the order it asks: a \<open>fetch\<close>, a
  \<open>readAsDataURL\<close> on a \<open>FileReader\<close>, the reset of the file input, a line on the
  console, and the call of \<open>analyzeImage\<close> (module \<open>lib/gemini\<close>, the request to the
  analysis service).
\<close>

datatype effect =
    Fetch jsstring
  | ReadBlobAsDataURL blob
  | ReadFileAsDataURL js_file
  | ResetFileInput
  | ConsoleError
  | AnalyzeImage "jsstring option" jsstring

text \<open>
  What the outside world answers. A \<open>FileReader\<close> ends with a data URL or with an error.
  The promise of \<open>analyzeImage\<close> resolves with a text or rejects with a thrown value,
  which is an \<open>Error\<close> carrying a message or anything else. A \<open>fetch\<close> rejects or gives a
  response with its \<open>ok\<close> flag and its body, where \<open>None\<close> is a body that cannot be read.
\<close>

datatype read_outcome = ReadOk jsstring | ReadFailed

datatype thrown = ErrorObject jsstring | NotAnError

datatype analyze_outcome = Resolved jsstring | Rejected thrown

datatype fetch_outcome = FetchRejected | FetchResponse bool "blob option"

definition DEFAULT_IMAGE :: jsstring where
  "DEFAULT_IMAGE = js ''/default-car.jpg''"

definition DEFAULT_ANALYSIS :: jsstring where
  "DEFAULT_ANALYSIS =
     js (''1. Car Identification:\<newline>'' @
        ''- Make: Porsche\<newline>'' @
        ''- Model: 911 (992 Series)\<newline>'' @
        ''- Year Range: 2019-Present\<newline>'' @
        ''- Variant: Carrera S\<newline>'' @
        ''- Body Style: Coupe\<newline>'' @
        ''- Distinguishing Features: Iconic sloping rear, wide rear fenders, LED light bar\<newline>'' @
        ''\<newline>'' @
        ''2. Technical Specifications:\<newline>'' @
        ''- Engine: 3.0L Twin-Turbocharged Flat-Six\<newline>'' @
        ''- Power Output: Approximately 443 hp (330 kW)\<newline>'' @
        ''- Transmission: 8-speed PDK dual-clutch automatic or 7-speed manual\<newline>'' @
        ''- Drivetrain: Rear-wheel drive (RWD)\<newline>'' @
        ''- 0-60 mph: Around 3.5 seconds\<newline>'' @
        ''- Top Speed: Approximately 191 mph (307 km/h)\<newline>'' @
        ''\<newline>'' @
        ''3. Design & Features:\<newline>'' @
        ''- Exterior: Streamlined profile, LED headlights, retractable door handles\<newline>'' @
        ''- Interior: Digital instrument cluster, 10.9-inch touchscreen, minimalist design\<newline>'' @
        ''- Safety Systems: Adaptive cruise control, lane keep assist, automatic emergency braking\<newline>'' @
        ''- Technology: Apple CarPlay, Android Auto, navigation system, Porsche Connect\<newline>'' @
        ''- Notable Options: Sport Chrono package, ceramic brakes, adaptive suspension\<newline>'' @
        ''\<newline>'' @
        ''4. Market & Value:\<newline>'' @
        ''- Starting Price: $115,000-$130,000 (base model, when new)\<newline>'' @
        ''- Current Market Position: Premium sports car segment\<newline>'' @
        ''- Competitors: Ferrari F8, McLaren 570S, Audi R8, Mercedes-AMG GT\<newline>'' @
        ''- Depreciation Rate: Lower than average (strong value retention)\<newline>'' @
        ''- Collectibility Potential: High (continuing the legacy of the iconic 911 line)\<newline>'' @
        ''\<newline>'' @
        ''5. Additional Information:\<newline>'' @
        ''- Heritage: Continues the lineage of the 911, first introduced in 1963\<newline>'' @
        ''- Performance History: Extensive motorsport heritage in endurance racing\<newline>'' @
        ''- Interesting Facts: The 992 is the 8th generation of the Porsche 911\<newline>'' @
        ''- Environmental Rating: Improved fuel efficiency over previous generations\<newline>'' @
        ''- Ownership Considerations: High-performance driving experience, specialized maintenance'')"

definition carPrompt :: jsstring where
  "carPrompt =
     js (''Analyze this car image for educational purposes and provide the following information:\<newline>'' @
        ''1. Car identification (make, model, year range, variant, body style, distinguishing features)\<newline>'' @
        ''2. Technical specifications (engine, power output, transmission, drivetrain, performance metrics)\<newline>'' @
        ''3. Design and features (exterior, interior, safety systems, technology, notable options)\<newline>'' @
        ''4. Market and value (price range, market position, competitors, depreciation, collectibility)\<newline>'' @
        ''5. Additional information (heritage, performance history, interesting facts, environmental rating)\<newline>'' @
        ''\<newline>'' @
        ''IMPORTANT: This is for educational purposes only.'')"

subsection \<open>handleAnalyze\<close>

text \<open>
  The handler runs up to its \<open>await\<close>, where the request is in flight, and resumes when
  the promise settles. \<open>handleAnalyze_start\<close> is the first part: both setters and the call.
\<close>

definition handleAnalyze_start :: "jsstring option \<Rightarrow> ui_state \<Rightarrow> ui_state \<times> effect list" where
  "handleAnalyze_start imageData s =
     (s\<lparr>loading := True, error := None\<rparr>, [AnalyzeImage imageData carPrompt])"

text \<open>\<open>err instanceof Error ? err.message : 'Failed to analyze image. Please try again.'\<close>\<close>

definition errorMessage :: "thrown \<Rightarrow> jsstring" where
  "errorMessage err =
     (case err of
        ErrorObject message \<Rightarrow> message
      | NotAnError \<Rightarrow> js ''Failed to analyze image. Please try again.'')"

text \<open>The second part: \<open>try\<close> after the \<open>await\<close>, \<open>catch\<close>, \<open>finally\<close>.\<close>

definition handleAnalyze_resume :: "analyze_outcome \<Rightarrow> ui_state \<Rightarrow> ui_state" where
  "handleAnalyze_resume outcome s =
     (case outcome of
        Resolved result \<Rightarrow> s\<lparr>analysis := result, loading := False\<rparr>
      | Rejected err \<Rightarrow> s\<lparr>error := Some (errorMessage err), loading := False\<rparr>)"

text \<open>One whole invocation, with nothing else happening while the request is in flight.\<close>

definition handleAnalyze ::
  "jsstring option \<Rightarrow> analyze_outcome \<Rightarrow> ui_state \<Rightarrow> ui_state \<times> effect list" where
  "handleAnalyze imageData outcome s =
     (let (s1, effects) = handleAnalyze_start imageData s
      in (handleAnalyze_resume outcome s1, effects))"

subsection \<open>handleImageUpload\<close>

text \<open>
  The change handler itself, up to its return. \<open>e.target.files?.[0]\<close> is \<open>None\<close> when the
  event carries no file. The \<open>accept\<close> attribute of the input only presets the filter of the
  file dialog; the handler does its own check of the declared type.
\<close>

definition handleImageUpload :: "js_file option \<Rightarrow> ui_state \<Rightarrow> ui_state \<times> effect list" where
  "handleImageUpload selected s =
     (case selected of
        None \<Rightarrow> (s, [])
      | Some f \<Rightarrow>
          if \<not> startsWith (file_type f) (js ''image/'') then
            (s\<lparr>error := Some (js ''Please upload a valid image file'')\<rparr>, [])
          else if file_size f > 20 * 1024 * 1024 then
            (s\<lparr>error := Some (js ''Image size should be less than 20MB'')\<rparr>, [])
          else (s, [ReadFileAsDataURL f, ResetFileInput]))"

text \<open>
  The two callbacks of the reader. \<open>reader.result\<close> is \<open>null\<close> after a failed read, and a
  reader fires \<open>loadend\<close> after \<open>error\<close> as well as after \<open>load\<close>.
\<close>

definition upload_onloadend ::
  "jsstring option \<Rightarrow> analyze_outcome \<Rightarrow> ui_state \<Rightarrow> ui_state \<times> effect list" where
  "upload_onloadend base64String outcome s =
     handleAnalyze base64String outcome (s\<lparr>image_data := base64String, error := None\<rparr>)"

definition upload_onerror :: "ui_state \<Rightarrow> ui_state" where
  "upload_onerror s = s\<lparr>error := Some (js ''Failed to read the image file. Please try again.'')\<rparr>"

definition is_read :: "effect \<Rightarrow> bool" where
  "is_read e = (case e of ReadFileAsDataURL _ \<Rightarrow> True | ReadBlobAsDataURL _ \<Rightarrow> True | _ \<Rightarrow> False)"

definition is_network :: "effect \<Rightarrow> bool" where
  "is_network e = (case e of Fetch _ \<Rightarrow> True | AnalyzeImage _ _ \<Rightarrow> True | _ \<Rightarrow> False)"

text \<open>
  A whole upload: the handler, then the events of the reader if one was started, with the
  analysis they trigger.
\<close>

definition upload ::
  "js_file option \<Rightarrow> read_outcome \<Rightarrow> analyze_outcome \<Rightarrow> ui_state \<Rightarrow> ui_state \<times> effect list" where
  "upload selected r outcome s =
     (let (s1, effects) = handleImageUpload selected s in
      if list_ex is_read effects then
        (let (s2, effects2) =
               (case r of
                  ReadOk d \<Rightarrow> upload_onloadend (Some d) outcome s1
                | ReadFailed \<Rightarrow> upload_onloadend None outcome (upload_onerror s1))
         in (s2, effects @ effects2))
      else (s1, effects))"

subsection \<open>loadDefaultContent\<close>

text \<open>The \<open>catch\<close> block.\<close>

definition load_failed :: "ui_state \<Rightarrow> ui_state" where
  "load_failed s = s\<lparr>error := Some (js ''Failed to load default image''), loading := False\<rparr>"

text \<open>The effect that runs once after the first render, with the events of its reader.\<close>

definition loadDefaultContent ::
  "fetch_outcome \<Rightarrow> read_outcome \<Rightarrow> ui_state \<Rightarrow> ui_state \<times> effect list" where
  "loadDefaultContent response r s =
     (let s1 = s\<lparr>loading := True\<rparr> in
      case response of
        FetchRejected \<Rightarrow> (load_failed s1, [Fetch DEFAULT_IMAGE, ConsoleError])
      | FetchResponse ok body \<Rightarrow>
          if \<not> ok then (load_failed s1, [Fetch DEFAULT_IMAGE, ConsoleError])
          else (case body of
                  None \<Rightarrow> (load_failed s1, [Fetch DEFAULT_IMAGE, ConsoleError])
                | Some b \<Rightarrow>
                    (case r of
                       ReadOk base64data \<Rightarrow>
                         (s1\<lparr>image_data := Some base64data, analysis := DEFAULT_ANALYSIS,
                             loading := False\<rparr>,
                          [Fetch DEFAULT_IMAGE, ReadBlobAsDataURL b])
                     | ReadFailed \<Rightarrow>
                         (s1\<lparr>error := Some (js ''Failed to load default image''),
                             loading := False,
                             image_data := None, analysis := DEFAULT_ANALYSIS\<rparr>,
                          [Fetch DEFAULT_IMAGE, ReadBlobAsDataURL b]))))"

subsection \<open>What analyzeImage throws\<close>

text \<open>
  Modelled from the spec: \<open>analyzeImage\<close> (module \<open>lib/gemini\<close>) is not among the
  sources, only its call in \<open>handleAnalyze\<close> is. Section 4.2 of the specification has each
  of its failures surfaced as a human-readable message and has all failures reach the
  caller as a single descriptive error: what it throws is an \<open>Error\<close> whose message is not
  empty.
\<close>

definition analyzeImage_failure :: "thrown \<Rightarrow> bool" where
  "analyzeImage_failure err =
     (case err of ErrorObject message \<Rightarrow> message \<noteq> [] | NotAnError \<Rightarrow> False)"

subsection \<open>The event loop\<close>

text \<open>
  The handlers run one at a time, each up to its return or its \<open>await\<close>; what is in
  between is the page: the state, the number of readers that uploads have started and that
  have not ended yet, and the image data of the calls of \<open>analyzeImage\<close> that have not
  settled yet, oldest first. Nothing keeps a second call from starting while one is in
  flight: the file input is never disabled.
\<close>

record page =
  ui :: ui_state
  reading :: nat
  in_flight :: "jsstring option list"

text \<open>
  The events: a change of the file input, the end of a reader of an upload, a click on
  \<open>Identify Car\<close>, and the settling of the call at a position of the list of calls in
  flight.
\<close>

datatype event =
    Select "js_file option"
  | ReaderEnds read_outcome
  | Identify
  | Settles nat analyze_outcome

text \<open>\<open>handleAnalyze\<close> up to its \<open>await\<close>: one more call is in flight.\<close>

definition start_analysis :: "jsstring option \<Rightarrow> page \<Rightarrow> page" where
  "start_analysis imageData p =
     p\<lparr>ui := fst (handleAnalyze_start imageData (ui p)),
       in_flight := in_flight p @ [imageData]\<rparr>"

text \<open>
  One event; \<open>None\<close> where it cannot happen: no reader is open, the button is not shown
  (no image) or disabled (loading), or no call is in flight at that position. The end of a
  reader runs \<open>onerror\<close> first after a failed read, then \<open>onloadend\<close> in both cases, which
  starts the analysis.
\<close>

fun step :: "event \<Rightarrow> page \<Rightarrow> page option" where
  "step (Select selected) p =
     (let (s, effects) = handleImageUpload selected (ui p) in
      Some (p\<lparr>ui := s,
              reading := (if list_ex is_read effects then Suc (reading p) else reading p)\<rparr>))"
| "step (ReaderEnds r) p =
     (if reading p = 0 then None
      else
        (let p1 = p\<lparr>reading := reading p - 1\<rparr> in
         case r of
           ReadOk d \<Rightarrow>
             Some (start_analysis (Some d)
                     (p1\<lparr>ui := (ui p1)\<lparr>image_data := Some d, error := None\<rparr>\<rparr>))
         | ReadFailed \<Rightarrow>
             Some (start_analysis None
                     (p1\<lparr>ui := (upload_onerror (ui p1))\<lparr>image_data := None, error := None\<rparr>\<rparr>))))"
| "step Identify p =
     (if image_data (ui p) = None \<or> loading (ui p) then None
      else Some (start_analysis (image_data (ui p)) p))"
| "step (Settles i outcome) p =
     (if i < length (in_flight p) then
        Some (p\<lparr>ui := handleAnalyze_resume outcome (ui p),
                in_flight := take i (in_flight p) @ drop (Suc i) (in_flight p)\<rparr>)
      else None)"



text \<open>
  The events whose handler writes no error message: every event but the selection of a
  file that fails a check of \<open>handleImageUpload\<close> and the failure of a call.
\<close>

fun quiet :: "event \<Rightarrow> bool" where
  "quiet (Select None) = True"
| "quiet (Select (Some f)) =
     (startsWith (file_type f) (js ''image/'') \<and> file_size f \<le> 20 * 1024 * 1024)"
| "quiet (ReaderEnds r) = True"
| "quiet Identify = True"
| "quiet (Settles i (Resolved result)) = True"
| "quiet (Settles i (Rejected err)) = False"

section \<open>Properties of the view controller\<close>

subsection \<open>A change event without a file\<close>

text \<open>
  C9. If the change event of the file input carries no file, \<open>handleImageUpload\<close> returns
  at once: every cell of the state (image, analysis, loading, error) keeps its value and
  nothing is asked of the outside world, neither by the handler nor later.
\<close>

theorem handleImageUpload_no_file:
  "handleImageUpload None s = (s, []) \<and> upload None r outcome s = (s, [])"
  by (simp add: upload_def handleImageUpload_def)

subsection \<open>The start of an analysis\<close>

lemma accepted_iff:
  "quiet (Select (Some f)) = list_ex is_read (snd (handleImageUpload (Some f) s))"
  by (simp add: handleImageUpload_def is_read_def)








subsection \<open>A failed analysis\<close>

lemma fallback_not_empty: "js ''Failed to analyze image. Please try again.'' \<noteq> []"
  by (simp add: js_def)

text \<open>
  C1. Take any failure of \<open>analyzeImage\<close> as section 4.2 of the specification describes
  it (an \<open>Error\<close> with a message that is not empty), or a thrown value that is not an
  \<open>Error\<close>. Then the part of \<open>handleAnalyze\<close> that runs after the failed call leaves the
  analysis text and the image of the state it finds as they are, whatever has happened
  since the call started, clears the loading flag, and sets the error to a message that
  is not empty: the message of the \<open>Error\<close>, or the fixed text of the handler. The part
  before the call does not touch the analysis text either, so a whole invocation leaves
  it as it was before the call, and so does the failure of any call in flight.
\<close>

theorem handleAnalyze_failure:
  assumes "analyzeImage_failure err \<or> err = NotAnError"
  shows "analysis (handleAnalyze_resume (Rejected err) s) = analysis s \<and>
         image_data (handleAnalyze_resume (Rejected err) s) = image_data s \<and>
         \<not> loading (handleAnalyze_resume (Rejected err) s) \<and>
         error (handleAnalyze_resume (Rejected err) s) = Some (errorMessage err) \<and>
         errorMessage err \<noteq> [] \<and>
         analysis (fst (handleAnalyze_start imageData s)) = analysis s \<and>
         analysis (fst (handleAnalyze imageData (Rejected err) s)) = analysis s \<and>
         \<not> loading (fst (handleAnalyze imageData (Rejected err) s)) \<and>
         error (fst (handleAnalyze imageData (Rejected err) s)) = Some (errorMessage err) \<and>
         map_option (\<lambda>p1. analysis (ui p1)) (step (Settles i (Rejected err)) p) =
           (if i < length (in_flight p) then Some (analysis (ui p)) else None)"
  using assms
  by (cases err)
    (simp_all add: handleAnalyze_def handleAnalyze_start_def handleAnalyze_resume_def
      errorMessage_def analyzeImage_failure_def fallback_not_empty)

theorem handleAnalyze_failure_witness:
  "analyzeImage_failure (ErrorObject (js ''Failed to fetch'')) \<and>
   analysis (handleAnalyze_resume (Rejected (ErrorObject (js ''Failed to fetch'')))
     \<lparr>image_data = Some (js ''data:''), analysis = js ''1. Car'', loading = True, error = None\<rparr>)
     = js ''1. Car'' \<and>
   error (handleAnalyze_resume (Rejected (ErrorObject (js ''Failed to fetch'')))
     \<lparr>image_data = Some (js ''data:''), analysis = js ''1. Car'', loading = True, error = None\<rparr>)
     = Some (js ''Failed to fetch'') \<and>
   js ''Failed to fetch'' \<noteq> []"
proof -
  have a: "analyzeImage_failure (ErrorObject (js ''Failed to fetch''))"
    by (simp add: analyzeImage_failure_def js_def)
  have b: "errorMessage (ErrorObject (js ''Failed to fetch'')) = js ''Failed to fetch''"
    by (simp add: errorMessage_def)
  from a b
    handleAnalyze_failure [OF disjI1 [OF a],
      of "\<lparr>image_data = Some (js ''data:''), analysis = js ''1. Car'', loading = True, error = None\<rparr>"]
  show ?thesis by simp
qed

subsection \<open>The check of the media type\<close>

text \<open>
  C2, as the specification states it, has every file rejected whose declared type is not
  one of \<open>image/jpeg\<close>, \<open>image/png\<close>, \<open>image/jpg\<close>, \<open>image/webp\<close>. The handler tests the
  prefix \<open>image/\<close> only: a file of type \<open>image/gif\<close> passes and is handed to the reader.
\<close>

theorem handleImageUpload_type_counterexample:
  "js ''image/gif'' \<notin>
     {js ''image/jpeg'', js ''image/png'', js ''image/jpg'', js ''image/webp''} \<and>
   handleImageUpload (Some \<lparr>file_type = js ''image/gif'', file_size = 1\<rparr>) initial_state =
     (initial_state,
      [ReadFileAsDataURL \<lparr>file_type = js ''image/gif'', file_size = 1\<rparr>, ResetFileInput])"
  by (simp add: handleImageUpload_def startsWith_def js_def)

text \<open>
  C2, amended. Every selected file whose declared type does not start with \<open>image/\<close> is
  rejected with the message \<open>Please upload a valid image file\<close> before any read: the state
  is otherwise unchanged and the whole upload asks nothing of the outside world.
  Equivalently, every file that the handler hands to the reader has a type that starts with
  \<open>image/\<close>.
\<close>

theorem handleImageUpload_type_check:
  "(\<not> startsWith (file_type f) (js ''image/'') \<longrightarrow>
      handleImageUpload (Some f) s =
        (s\<lparr>error := Some (js ''Please upload a valid image file'')\<rparr>, []) \<and>
      upload (Some f) r outcome s =
        (s\<lparr>error := Some (js ''Please upload a valid image file'')\<rparr>, [])) \<and>
   (list_ex is_read (snd (handleImageUpload (Some f) s)) \<longrightarrow>
      startsWith (file_type f) (js ''image/''))"
  by (simp add: upload_def handleImageUpload_def)

theorem handleImageUpload_type_check_witness:
  "\<not> startsWith (js ''text/plain'') (js ''image/'') \<and>
   upload (Some \<lparr>file_type = js ''text/plain'', file_size = 1\<rparr>) ReadFailed (Resolved [])
       initial_state =
     (initial_state\<lparr>error := Some (js ''Please upload a valid image file'')\<rparr>, []) \<and>
   list_ex is_read
     (snd (handleImageUpload (Some \<lparr>file_type = js ''image/png'', file_size = 1\<rparr>)
             initial_state)) \<and>
   startsWith (js ''image/png'') (js ''image/'')"
proof -
  have a: "\<not> startsWith (js ''text/plain'') (js ''image/'')"
    by (simp add: startsWith_def js_def)
  have b: "list_ex is_read
     (snd (handleImageUpload (Some \<lparr>file_type = js ''image/png'', file_size = 1\<rparr>)
             initial_state))"
    by (simp add: handleImageUpload_def startsWith_def js_def is_read_def)
  from a b
    handleImageUpload_type_check
      [of "\<lparr>file_type = js ''text/plain'', file_size = 1\<rparr>" initial_state
          ReadFailed "Resolved []"]
    handleImageUpload_type_check
      [of "\<lparr>file_type = js ''image/png'', file_size = 1\<rparr>" initial_state]
  show ?thesis by simp
qed

subsection \<open>The check of the size\<close>

text \<open>
  C3. For every selected file whose declared type passed the check, the handler rejects
  it with the message \<open>Image size should be less than 20MB\<close> if and only if its size is
  strictly above \<open>20 * 1024 * 1024\<close> bytes. A rejected upload asks nothing of the outside
  world (no read, hence no analysis call); a file of at most that size is handed to the
  reader. So a file of exactly 20 MiB is accepted and one of 20 MiB and one byte is not.
\<close>

theorem handleImageUpload_size_check:
  assumes "startsWith (file_type f) (js ''image/'')"
  shows "(handleImageUpload (Some f) s =
            (s\<lparr>error := Some (js ''Image size should be less than 20MB'')\<rparr>, []))
           = (file_size f > 20 * 1024 * 1024) \<and>
         (snd (upload (Some f) r outcome s) = []) = (file_size f > 20 * 1024 * 1024) \<and>
         (list_ex is_read (snd (handleImageUpload (Some f) s)))
           = (file_size f \<le> 20 * 1024 * 1024)"
  using assms
  by (simp add: upload_def handleImageUpload_def is_read_def
      split: read_outcome.split prod.split)

theorem handleImageUpload_size_check_witness:
  "startsWith (js ''image/jpeg'') (js ''image/'') \<and>
   handleImageUpload (Some \<lparr>file_type = js ''image/jpeg'', file_size = 20971521\<rparr>)
       initial_state =
     (initial_state\<lparr>error := Some (js ''Image size should be less than 20MB'')\<rparr>, []) \<and>
   snd (upload (Some \<lparr>file_type = js ''image/jpeg'', file_size = 20971521\<rparr>)
          (ReadOk []) (Resolved []) initial_state) = [] \<and>
   list_ex is_read
     (snd (handleImageUpload (Some \<lparr>file_type = js ''image/jpeg'', file_size = 20971520\<rparr>)
             initial_state))"
proof -
  have a: "startsWith (js ''image/jpeg'') (js ''image/'')"
    by (simp add: startsWith_def js_def)
  from a
    handleImageUpload_size_check
      [of "\<lparr>file_type = js ''image/jpeg'', file_size = 20971521\<rparr>" initial_state
          "ReadOk []" "Resolved []"]
    handleImageUpload_size_check
      [of "\<lparr>file_type = js ''image/jpeg'', file_size = 20971520\<rparr>" initial_state
          "ReadOk []" "Resolved []"]
  show ?thesis by simp
qed

subsection \<open>The first load\<close>

lemma DEFAULT_ANALYSIS_not_empty: "DEFAULT_ANALYSIS \<noteq> []"
  by (simp add: DEFAULT_ANALYSIS_def js_def)

text \<open>
  C4, as the specification states it, has the first load show the canned analysis and the
  default image without any network call. The default image is fetched from its URL, which
  is a network request, and when that request fails the analysis text stays empty.
\<close>

theorem loadDefaultContent_counterexample:
  "list_ex is_network
     (snd (loadDefaultContent (FetchResponse True (Some []))
             (ReadOk (js ''data:image/jpeg;base64,'')) initial_state)) \<and>
   analysis
     (fst (loadDefaultContent FetchRejected
             (ReadOk (js ''data:image/jpeg;base64,'')) initial_state)) \<noteq> DEFAULT_ANALYSIS"
  using DEFAULT_ANALYSIS_not_empty
  by (simp add: loadDefaultContent_def Let_def is_network_def load_failed_def
      initial_state_def)

text \<open>
  C4, amended. When the fetch of the default image succeeds and its body is read, the
  state after the first load has the canned analysis as analysis text, the data URL read
  from the fetched image as current image, and neither loading flag nor error. Whatever
  the outcome, the first load makes exactly one network request, the fetch of the default
  image, and no call of the analysis service.
\<close>

theorem loadDefaultContent_success:
  "loadDefaultContent (FetchResponse True (Some b)) (ReadOk base64data) initial_state =
     (\<lparr>image_data = Some base64data, analysis = DEFAULT_ANALYSIS, loading = False,
       error = None\<rparr>,
      [Fetch DEFAULT_IMAGE, ReadBlobAsDataURL b]) \<and>
   filter is_network (snd (loadDefaultContent response r s)) = [Fetch DEFAULT_IMAGE]"
  by (simp add: loadDefaultContent_def Let_def is_network_def load_failed_def
      initial_state_def split: fetch_outcome.split option.split read_outcome.split)

section \<open>Properties of the result formatter\<close>

subsection \<open>Splitting, joining and trimming\<close>

lemma split_not_Nil: "split sep s \<noteq> []"
  by (induction s) (auto split: list.splits)

lemma split_append_sep: "sep \<notin> set pre \<Longrightarrow> split sep (pre @ sep # post) = pre # split sep post"
  by (induction pre) auto

lemma join_split: "join sep (split sep s) = s"
proof (induction s)
  case Nil
  show ?case by simp
next
  case (Cons c cs)
  obtain p ps where parts: "split sep cs = p # ps"
    using split_not_Nil [of sep cs] by (cases "split sep cs") auto
  show ?case
  proof (cases "c = sep")
    case True
    with Cons parts show ?thesis by simp
  next
    case False
    with Cons parts show ?thesis by (cases ps) auto
  qed
qed

lemma set_split_parts:
  assumes "split sep s = p # ps"
  shows "set p \<subseteq> set s" and "set (join sep ps) \<subseteq> set s"
proof -
  have whole: "join sep (p # ps) = s"
    using join_split [of sep s] assms by simp
  from whole show "set p \<subseteq> set s" by (cases ps) auto
  from whole show "set (join sep ps) \<subseteq> set s" by (cases ps) auto
qed

lemma set_trim: "set (trim s) \<subseteq> set s"
proof -
  have "set (trim s) \<subseteq> set (rev (dropWhile is_space s))"
    unfolding trim_def by (metis set_rev set_dropWhileD subsetI)
  also have "\<dots> \<subseteq> set s"
    by (auto dest: set_dropWhileD)
  finally show ?thesis .
qed

lemma all_dropWhile: "(\<forall>x\<in>set (dropWhile P s). P x) = (\<forall>x\<in>set s. P x)"
  by (induction s) auto

lemma trim_eq_Nil: "(trim s = []) = (\<forall>c\<in>set s. is_space c)"
  by (simp add: trim_def dropWhile_eq_Nil_conv all_dropWhile)

lemma cleanLine_eq_Nil: "(cleanLine line = []) = (\<forall>c\<in>set line. is_markup c \<or> is_space c)"
  by (auto simp: cleanLine_def trim_eq_Nil)

lemma cleanLine_no_markup: "c \<in> set (cleanLine line) \<Longrightarrow> \<not> is_markup c"
  using set_trim [of "filter (\<lambda>c. \<not> is_markup c) line"] by (auto simp: cleanLine_def)

lemma is_markup_iff: "is_markup c = (c \<in> set (js ''*_#`''))"
  by (auto simp: is_markup_def js_def)

lemma not_digit_dash: "\<not> is_digit dash"
  by (simp add: is_digit_def dash_def)

lemma not_digit_period: "\<not> is_digit period"
  by (simp add: is_digit_def period_def)

lemma dash_not_colon: "dash \<noteq> colon"
  by (simp add: dash_def colon_def)

lemma test_header_dash: "\<not> test_header (dash # s)"
  by (simp add: test_header_def not_digit_dash)

lemma test_header_digits:
  assumes "ds \<noteq> []" and "\<forall>c\<in>set ds. is_digit c"
  shows "test_header (ds @ period # rest)"
    and "dropWhile is_digit (ds @ period # rest) = period # rest"
proof -
  from assms(2) have tw: "takeWhile is_digit (ds @ period # rest) = ds"
    by (simp add: not_digit_period)
  from assms(2) show dw: "dropWhile is_digit (ds @ period # rest) = period # rest"
    by (simp add: not_digit_period)
  from tw dw assms(1) show "test_header (ds @ period # rest)"
    by (simp add: test_header_def)
qed

lemma test_header_iff:
  "test_header s = (\<exists>ds rest. ds \<noteq> [] \<and> (\<forall>c\<in>set ds. is_digit c) \<and> s = ds @ period # rest)"
proof
  assume t: "test_header s"
  then obtain rest where d: "dropWhile is_digit s = period # rest"
    by (auto simp: test_header_def split: list.splits)
  have "s = takeWhile is_digit s @ dropWhile is_digit s" by simp
  with d have "s = takeWhile is_digit s @ period # rest" by simp
  moreover from t have "takeWhile is_digit s \<noteq> []" by (simp add: test_header_def)
  moreover have "\<forall>c\<in>set (takeWhile is_digit s). is_digit c" by (auto dest: set_takeWhileD)
  ultimately show "\<exists>ds rest. ds \<noteq> [] \<and> (\<forall>c\<in>set ds. is_digit c) \<and> s = ds @ period # rest"
    by blast
next
  assume "\<exists>ds rest. ds \<noteq> [] \<and> (\<forall>c\<in>set ds. is_digit c) \<and> s = ds @ period # rest"
  then show "test_header s" using test_header_digits(1) by blast
qed

lemma dash_colon_iff:
  "(startsWith s [dash] \<and> includes_unit s colon) =
   (\<exists>pre post. colon \<notin> set pre \<and> s = dash # pre @ colon # post)"
proof
  assume a: "startsWith s [dash] \<and> includes_unit s colon"
  then obtain t where s: "s = dash # t" by (cases s) (auto simp: startsWith_def)
  with a dash_not_colon have "colon \<in> set t" by (auto simp: includes_unit_def)
  then obtain pre post where "t = pre @ colon # post" and "colon \<notin> set pre"
    by (auto dest: split_list_first)
  with s show "\<exists>pre post. colon \<notin> set pre \<and> s = dash # pre @ colon # post" by blast
next
  assume "\<exists>pre post. colon \<notin> set pre \<and> s = dash # pre @ colon # post"
  then show "startsWith s [dash] \<and> includes_unit s colon"
    by (auto simp: startsWith_def includes_unit_def)
qed

lemma labeled_parts:
  assumes "colon \<notin> set pre"
  shows "split colon (substring1 (dash # pre @ colon # post)) = pre # split colon post"
  using assms by (simp add: substring1_def split_append_sep)

lemma formatLine_header:
  assumes "cleanLine line = ds @ period # rest" and "ds \<noteq> []" and "\<forall>c\<in>set ds. is_digit c"
  shows "formatLine line index = Some (Element index (SectionHeader (dropWhile is_space rest)))"
  using assms test_header_digits [OF assms(2,3), of rest]
  by (simp add: formatLine_def strip_header_def)

lemma formatLine_labeled:
  assumes "cleanLine line = dash # pre @ colon # post" and "colon \<notin> set pre"
  shows "formatLine line index = Some (Element index (LabeledItem (trim pre) (trim post)))"
  using assms
  by (simp add: formatLine_def test_header_dash startsWith_def includes_unit_def
      labeled_parts join_split)

lemma formatLine_None_iff: "(formatLine line index = None) = (cleanLine line = [])"
  using split_not_Nil [of colon "substring1 (cleanLine line)"]
  by (simp add: formatLine_def Let_def split: list.split)

lemma formatLine_key: "formatLine line index = Some e \<Longrightarrow> key e = index"
  by (auto simp: formatLine_def Let_def split: if_splits list.splits)

lemma formatLine_block_index:
  "map_option block (formatLine line i) = map_option block (formatLine line j)"
  by (simp add: formatLine_def Let_def split: list.split)

lemma set_strip_header: "set (strip_header s) \<subseteq> set s"
  by (auto simp: strip_header_def dest!: set_dropWhileD in_set_dropD)

lemma formatLine_strings:
  assumes "formatLine line index = Some e" and "s \<in> set (block_strings (block e))"
  shows "set s \<subseteq> set (cleanLine line)"
proof -
  let ?cl = "cleanLine line"
  have sub: "set (substring1 ?cl) \<subseteq> set ?cl"
    by (auto simp: substring1_def dest: in_set_dropD)
  have parts: "set (trim label) \<subseteq> set ?cl \<and> set (trim (join colon valueParts)) \<subseteq> set ?cl"
    if "split colon (substring1 ?cl) = label # valueParts" for label valueParts
    using set_split_parts [OF that] set_trim [of label] set_trim [of "join colon valueParts"] sub
    by blast
  from assms show ?thesis
    using set_strip_header [of ?cl] set_trim [of "substring1 ?cl"] sub parts
    by (auto simp: formatLine_def Let_def split: if_splits list.splits)
qed

lemma block_enumerate:
  assumes "\<And>l i j. map_option block (f l i) = map_option block (f l j)"
  shows "map block (List.map_filter (\<lambda>(i, l). f l i) (enumerate n xs)) =
         List.map_filter (\<lambda>l. map_option block (f l 0)) xs"
proof (induction xs arbitrary: n)
  case Nil
  show ?case by (simp add: List.map_filter_simps)
next
  case (Cons x xs)
  from assms [of x n 0] Cons [of "Suc n"] show ?case
    by (cases "f x n"; cases "f x 0") (simp_all add: List.map_filter_simps)
qed

lemma key_enumerate:
  assumes "\<And>l i e. f l i = Some e \<Longrightarrow> key e = i"
  shows "map key (List.map_filter (\<lambda>(i, l). f l i) (enumerate n xs)) =
         map fst (filter (\<lambda>(i, l). f l i \<noteq> None) (enumerate n xs))"
proof (induction xs arbitrary: n)
  case Nil
  show ?case by (simp add: List.map_filter_simps)
next
  case (Cons x xs)
  from assms [of x n] Cons [of "Suc n"] show ?case
    by (cases "f x n") (simp_all add: List.map_filter_simps)
qed

lemma fst_filter_enumerate:
  "map fst (filter (\<lambda>(i, l). P l) (enumerate 0 xs)) = filter (\<lambda>i. P (xs ! i)) [0..<length xs]"
proof -
  let ?Q = "\<lambda>i. P (xs ! i)"
  have same: "filter (\<lambda>(i, l). P l) (enumerate 0 xs) = filter (?Q \<circ> fst) (enumerate 0 xs)"
    by (rule filter_cong) (auto simp: in_set_enumerate_eq)
  have "filter ?Q [0..<length xs] = filter ?Q (map fst (enumerate 0 xs))"
    by simp
  also have "\<dots> = map fst (filter (?Q \<circ> fst) (enumerate 0 xs))"
    by (simp only: filter_map)
  finally show ?thesis
    by (simp only: same)
qed

lemma formatAnalysis_blocks:
  "map block (formatAnalysis text) =
   List.map_filter (\<lambda>line. map_option block (formatLine line 0)) (split newline text)"
  unfolding formatAnalysis_def by (rule block_enumerate) (rule formatLine_block_index)

lemma formatAnalysis_keys:
  "map key (formatAnalysis text) =
   filter (\<lambda>i. cleanLine (split newline text ! i) \<noteq> []) [0..<length (split newline text)]"
proof -
  have "map key (formatAnalysis text) =
        map fst (filter (\<lambda>(i, l). formatLine l i \<noteq> None) (enumerate 0 (split newline text)))"
    unfolding formatAnalysis_def by (rule key_enumerate) (rule formatLine_key)
  also have "\<dots> = map fst (filter (\<lambda>(i, l). cleanLine l \<noteq> []) (enumerate 0 (split newline text)))"
    by (simp add: formatLine_None_iff)
  finally show ?thesis
    by (simp only: fst_filter_enumerate)
qed

lemma formatAnalysis_length:
  "length (formatAnalysis text) =
   length (filter (\<lambda>line. cleanLine line \<noteq> []) (split newline text))"
proof -
  have "length (formatAnalysis text) = length (map block (formatAnalysis text))" by simp
  also have "\<dots> = length (List.map_filter (\<lambda>line. map_option block (formatLine line 0)) (split newline text))"
    by (simp only: formatAnalysis_blocks)
  also have "\<dots> = length (filter (\<lambda>line. cleanLine line \<noteq> []) (split newline text))"
    by (simp add: List.map_filter_def formatLine_None_iff)
  finally show ?thesis .
qed

lemma formatAnalysis_elem:
  assumes "e \<in> set (formatAnalysis text)"
  shows "\<exists>line index. formatLine line index = Some e"
  using assms by (auto simp: formatAnalysis_def List.map_filter_def) blast

lemma example_header:
  "formatAnalysis (js ''1. Car Identification:'') =
     [Element 0 (SectionHeader (js ''Car Identification:''))]"
  by code_simp

lemma example_labeled:
  "formatAnalysis (js ''- Make: Porsche'') =
     [Element 0 (LabeledItem (js ''Make'') (js ''Porsche''))]"
  by code_simp

subsection \<open>Section headers\<close>

text \<open>
  C5. Every line whose cleaned form (markup removed, trimmed) is a non-empty run of digits,
  a period and a rest gives a \<open>SectionHeader\<close> whose title is that rest without its leading
  whitespace; these are exactly the lines on which the test \<open>/^\d+\./\<close> of the source
  succeeds. In particular the line \<open>1. Car Identification:\<close> gives the header
  \<open>Car Identification:\<close>.
\<close>

theorem formatLine_section_header:
  "(cleanLine line = ds @ period # rest \<and> ds \<noteq> [] \<and> (\<forall>c\<in>set ds. is_digit c) \<longrightarrow>
      formatLine line index =
        Some (Element index (SectionHeader (dropWhile is_space rest)))) \<and>
   test_header (cleanLine line) =
     (\<exists>ds rest. ds \<noteq> [] \<and> (\<forall>c\<in>set ds. is_digit c) \<and> cleanLine line = ds @ period # rest) \<and>
   formatAnalysis (js ''1. Car Identification:'') =
     [Element 0 (SectionHeader (js ''Car Identification:''))]"
  using formatLine_header [of line ds rest index] test_header_iff [of "cleanLine line"]
    example_header
  by blast

theorem formatLine_section_header_witness:
  "cleanLine (js ''**12.  Specs**'') = js ''12'' @ period # js ''  Specs'' \<and>
   js ''12'' \<noteq> [] \<and> is_digit 0x31 \<and> is_digit 0x32 \<and>
   formatLine (js ''**12.  Specs**'') 7 = Some (Element 7 (SectionHeader (js ''Specs'')))"
proof -
  have a: "cleanLine (js ''**12.  Specs**'') = js ''12'' @ period # js ''  Specs''"
    by code_simp
  have b: "js ''12'' \<noteq> []" "\<forall>c\<in>set (js ''12''). is_digit c" "is_digit 0x31" "is_digit 0x32"
    by (simp_all add: js_def is_digit_def)
  have c: "dropWhile is_space (js ''  Specs'') = js ''Specs''"
    by (simp add: js_def is_space_def)
  from a b
    formatLine_section_header [of "js ''**12.  Specs**''" "js ''12''" "js ''  Specs''" 7,
      THEN conjunct1]
  show ?thesis by (simp only: c simp_thms)
qed

subsection \<open>Labeled items\<close>

text \<open>
  C6. Every line whose cleaned form is a dash, a text without colon, a colon and a rest
  gives a \<open>LabeledItem\<close>: the label is the text between the dash and the first colon,
  trimmed, and the value is everything after the first colon, trimmed, further colons
  included. These are exactly the cleaned lines that start with a dash and contain a colon,
  and none of them matches the header pattern, since a dash is not a digit. In particular
  \<open>- Make: Porsche\<close> gives the label \<open>Make\<close> and the value \<open>Porsche\<close>.
\<close>

theorem formatLine_labeled_item:
  "(cleanLine line = dash # pre @ colon # post \<and> colon \<notin> set pre \<longrightarrow>
      formatLine line index = Some (Element index (LabeledItem (trim pre) (trim post)))) \<and>
   (startsWith (cleanLine line) [dash] \<and> includes_unit (cleanLine line) colon) =
     (\<exists>pre post. colon \<notin> set pre \<and> cleanLine line = dash # pre @ colon # post) \<and>
   \<not> test_header (dash # s) \<and>
   formatAnalysis (js ''- Make: Porsche'') =
     [Element 0 (LabeledItem (js ''Make'') (js ''Porsche''))]"
  using formatLine_labeled [of line pre post index] dash_colon_iff [of "cleanLine line"]
    test_header_dash [of s] example_labeled
  by blast

theorem formatLine_labeled_item_witness:
  "cleanLine (js ''- Time: 10:30'') = dash # js '' Time'' @ colon # js '' 10:30'' \<and>
   colon \<notin> set (js '' Time'') \<and>
   formatLine (js ''- Time: 10:30'') 3 =
     Some (Element 3 (LabeledItem (js ''Time'') (js ''10:30'')))"
proof -
  have a: "cleanLine (js ''- Time: 10:30'') = dash # js '' Time'' @ colon # js '' 10:30''"
    by code_simp
  have b: "colon \<notin> set (js '' Time'')"
    by (simp add: js_def colon_def)
  have c: "trim (js '' Time'') = js ''Time''" "trim (js '' 10:30'') = js ''10:30''"
    by (simp_all add: js_def trim_def is_space_def)
  from a b
    formatLine_labeled_item [of "js ''- Time: 10:30''" "js '' Time''" "js '' 10:30''" 3,
      THEN conjunct1]
  show ?thesis by (simp only: c simp_thms)
qed

subsection \<open>One block per non-blank line\<close>

text \<open>
  C7. For every input text the blocks are those of its lines, in the order of the lines:
  a line gives no block if its cleaned form is empty, which is the case exactly when the
  line has only markup characters and whitespace, and one block otherwise, so that the
  keys of the elements are the indices of the lines whose cleaned form is not empty, in
  increasing order. The block of a line depends on the line alone, not on its index.
\<close>

theorem formatAnalysis_line_by_line:
  "map block (formatAnalysis text) =
     List.map_filter (\<lambda>line. map_option block (formatLine line 0)) (split newline text) \<and>
   map key (formatAnalysis text) =
     filter (\<lambda>i. cleanLine (split newline text ! i) \<noteq> []) [0..<length (split newline text)] \<and>
   length (formatAnalysis text) =
     length (filter (\<lambda>line. cleanLine line \<noteq> []) (split newline text)) \<and>
   (formatLine line i = None) = (cleanLine line = []) \<and>
   (cleanLine line = []) = (\<forall>c\<in>set line. is_markup c \<or> is_space c) \<and>
   map_option block (formatLine line i) = map_option block (formatLine line j)"
  using formatAnalysis_blocks [of "text"] formatAnalysis_keys [of "text"]
    formatAnalysis_length [of "text"] formatLine_None_iff [of line i] cleanLine_eq_Nil [of line]
    formatLine_block_index [of line i j]
  by blast

theorem formatAnalysis_line_by_line_witness:
  "split newline (js ''1. A\<newline> * \<newline>- b'') = [js ''1. A'', js '' * '', js ''- b''] \<and>
   map block (formatAnalysis (js ''1. A\<newline> * \<newline>- b'')) =
     [SectionHeader (js ''A''), BulletItem (js ''b'')] \<and>
   map key (formatAnalysis (js ''1. A\<newline> * \<newline>- b'')) = [0, 2] \<and>
   formatLine (js '' * '') 1 = None"
proof -
  have a: "split newline (js ''1. A\<newline> * \<newline>- b'') = [js ''1. A'', js '' * '', js ''- b'']"
    by code_simp
  have b: "map_option block (formatLine (js ''1. A'') 0) = Some (SectionHeader (js ''A''))"
    "map_option block (formatLine (js '' * '') 0) = None"
    "map_option block (formatLine (js ''- b'') 0) = Some (BulletItem (js ''b''))"
    by code_simp+
  have c: "cleanLine (js ''1. A'') \<noteq> []" "cleanLine (js '' * '') = []" "cleanLine (js ''- b'') \<noteq> []"
    by code_simp+
  have d: "[0..<3] = [0, 1, 2]"
    by (simp add: upt_rec)
  from formatAnalysis_line_by_line [of "js ''1. A\<newline> * \<newline>- b''" "js '' * ''" 1 1]
  show ?thesis
    by (simp add: a b c d List.map_filter_simps)
qed

subsection \<open>No markup characters in a block\<close>

text \<open>
  C10. For every input text, no string of an emitted block (title, label, value or text)
  contains any of the characters \<open>*\<close>, \<open>_\<close>, \<open>#\<close> and the backquote: they are removed
  from the whole line before it is classified.
\<close>

theorem formatAnalysis_no_markup:
  assumes "e \<in> set (formatAnalysis text)"
    and "s \<in> set (block_strings (block e))"
    and "c \<in> set s"
  shows "c \<notin> set (js ''*_#`'')"
proof -
  from assms(1) obtain line index where "formatLine line index = Some e"
    using formatAnalysis_elem by blast
  from this assms(2) have "set s \<subseteq> set (cleanLine line)"
    by (rule formatLine_strings)
  with assms(3) have "\<not> is_markup c"
    using cleanLine_no_markup by blast
  then show ?thesis by (simp add: is_markup_iff)
qed

theorem formatAnalysis_no_markup_witness:
  "Element 0 (SectionHeader (js ''Car'')) \<in> set (formatAnalysis (js ''## 1. *Car*'')) \<and>
   js ''Car'' \<in> set (block_strings (SectionHeader (js ''Car''))) \<and>
   (0x43 :: jschar) \<in> set (js ''Car'') \<and>
   (0x43 :: jschar) \<notin> set (js ''*_#`'')"
proof -
  have a: "Element 0 (SectionHeader (js ''Car'')) \<in> set (formatAnalysis (js ''## 1. *Car*''))"
    by code_simp
  have b: "js ''Car'' \<in> set (block_strings (block (Element 0 (SectionHeader (js ''Car'')))))"
    by simp
  have c: "(0x43 :: jschar) \<in> set (js ''Car'')"
    by (simp add: js_def)
  from formatAnalysis_no_markup [OF a b c] a b c show ?thesis by simp
qed

end
